theory Spec2Isabelle
  imports Complex_Main "HOL-Library.Sublist"
begin

section \<open>Data model (app/models/schemas.py)\<close>

text \<open>
  \<^verbatim>\<open>CitizenProfile\<close> is a dataclass of seventeen fields, each \<^verbatim>\<open>Optional\<close> with
  default \<^verbatim>\<open>None\<close>. The record keeps the field names, the declared types and the
  declaration order. Strings are byte strings (UTF-8); Python's unbounded integers
  are \<^typ>\<open>int\<close>.
\<close>

record CitizenProfile =
  age :: "int option"
  gender :: "string option"
  state :: "string option"
  district :: "string option"
  occupation :: "string option"
  category :: "string option"
  annual_income :: "int option"
  bpl_status :: "bool option"
  disability :: "bool option"
  marital_status :: "string option"
  land_ownership :: "bool option"
  education_level :: "string option"
  family_members :: "int option"
  children_count :: "int option"
  children_in_school :: "bool option"
  pregnant_in_family :: "bool option"
  senior_in_family :: "bool option"

text \<open>The profile that \<^verbatim>\<open>CitizenProfile()\<close> builds: every field \<^verbatim>\<open>None\<close>.\<close>

definition empty_profile :: CitizenProfile where
  "empty_profile =
     \<lparr>age = None, gender = None, state = None, district = None, occupation = None,
      category = None, annual_income = None, bpl_status = None, disability = None,
      marital_status = None, land_ownership = None, education_level = None,
      family_members = None, children_count = None, children_in_school = None,
      pregnant_in_family = None, senior_in_family = None\<rparr>"

text \<open>
  \<^verbatim>\<open>filled = sum(1 for f in critical_fields if getattr(self, f) is not None)\<close> over
  \<^verbatim>\<open>['age', 'gender', 'state', 'occupation', 'category', 'annual_income']\<close>.
\<close>

definition critical_filled :: "CitizenProfile \<Rightarrow> nat" where
  "critical_filled p =
     length (filter (\<lambda>b. b)
       [age p \<noteq> None, gender p \<noteq> None, state p \<noteq> None, occupation p \<noteq> None,
        category p \<noteq> None, annual_income p \<noteq> None])"

text \<open>
  \<^verbatim>\<open>return filled / len(critical_fields)\<close>. The quotient is one of the seven values
  \<open>k / 6\<close> with \<open>0 \<le> k \<le> 6\<close>; it is kept as an exact rational. The source compares
  the double nearest to \<open>k / 6\<close> with the literals 0.8, 0.5 and 0, and for each of the
  seven values the outcome is that of the exact comparison (the nearest neighbours of
  0.8 are 4/6 and 5/6; 3/6 and 0/6 are exact doubles).
\<close>

definition completeness_score :: "CitizenProfile \<Rightarrow> rat" where
  "completeness_score p = of_nat (critical_filled p) / 6"

section \<open>Progressive profiling (app/services/scheme\_matcher.py)\<close>

text \<open>
  \<^verbatim>\<open>get_profiling_question\<close>: the threshold guard first, then the chain of
  \<^verbatim>\<open>if ... is None: return "..."\<close> in the order of the source, then \<^verbatim>\<open>return None\<close>.
\<close>

definition get_profiling_question :: "CitizenProfile \<Rightarrow> string option" where
  "get_profiling_question p =
     (if completeness_score p \<ge> 8 / 10 then None
      else if age p = None then Some ''age''
      else if gender p = None then Some ''gender''
      else if state p = None then Some ''state''
      else if occupation p = None then Some ''occupation''
      else if category p = None then Some ''category''
      else if annual_income p = None then Some ''income''
      else if marital_status p = None then Some ''marital_status''
      else if bpl_status p = None then Some ''bpl''
      else None)"

text \<open>
  The transition rule in the words of the specification, for comparison with the
  source: the eight fields in the fixed priority order, each with the identifier
  reported for it and whether it is still null, and a scan for the first null one.
\<close>

definition priority_fields :: "CitizenProfile \<Rightarrow> (string \<times> bool) list" where
  "priority_fields p =
     [(''age'', age p = None), (''gender'', gender p = None), (''state'', state p = None),
      (''occupation'', occupation p = None), (''category'', category p = None),
      (''income'', annual_income p = None), (''marital_status'', marital_status p = None),
      (''bpl'', bpl_status p = None)]"

fun first_null :: "(string \<times> bool) list \<Rightarrow> string option" where
  "first_null [] = None"
| "first_null ((k, is_null) # rest) = (if is_null then Some k else first_null rest)"

text \<open>The profile of Scenario A of the specification.\<close>

definition scenario_A_profile :: CitizenProfile where
  "scenario_A_profile =
     empty_profile\<lparr>age := Some 35, gender := Some ''female'', state := Some ''Bihar'',
       occupation := Some ''farmer'', category := Some ''general'',
       annual_income := Some 80000\<rparr>"

section \<open>Eligibility rules and schemes\<close>

text \<open>
  A scheme's \<^verbatim>\<open>eligibility\<close> value is a JSON object read as a Python dict. The
  filter looks at twelve keys; each is a field here, \<open>None\<close> when the key is not in
  the dict, with the type the filter uses it at (a bound, a list of allowed values,
  a flag). \<open>r_other_keys\<close> holds the keys the filter does not know, which matter only
  for the emptiness test \<^verbatim>\<open>not rules\<close> of \<^verbatim>\<open>match_schemes\<close>.
\<close>

record EligibilityRules =
  r_age_min :: "int option"
  r_age_max :: "int option"
  r_gender :: "string list option"
  r_states :: "string list option"
  r_occupations :: "string list option"
  r_categories :: "string list option"
  r_income_max :: "int option"
  r_bpl_required :: "bool option"
  r_disability_required :: "bool option"
  r_disability :: "bool option"
  r_land_required :: "bool option"
  r_marital_status :: "string list option"
  r_other_keys :: "string list"

text \<open>The empty dict \<^verbatim>\<open>{}\<close>.\<close>

definition no_rules :: EligibilityRules where
  "no_rules =
     \<lparr>r_age_min = None, r_age_max = None, r_gender = None, r_states = None,
      r_occupations = None, r_categories = None, r_income_max = None,
      r_bpl_required = None, r_disability_required = None, r_disability = None,
      r_land_required = None, r_marital_status = None, r_other_keys = []\<rparr>"

text \<open>\<^verbatim>\<open>not rules\<close>: a dict is falsy exactly when it has no key at all.\<close>

definition rules_empty :: "EligibilityRules \<Rightarrow> bool" where
  "rules_empty r \<longleftrightarrow>
     r_age_min r = None \<and> r_age_max r = None \<and> r_gender r = None \<and> r_states r = None \<and>
     r_occupations r = None \<and> r_categories r = None \<and> r_income_max r = None \<and>
     r_bpl_required r = None \<and> r_disability_required r = None \<and> r_disability r = None \<and>
     r_land_required r = None \<and> r_marital_status r = None \<and> r_other_keys r = []"

text \<open>
  A scheme record of the catalog, with the keys that the matcher, the discovery
  handler and \<^verbatim>\<open>explain_schemes\<close> read. Each may be missing from the JSON object
  (\<open>None\<close>): the source reads \<^verbatim>\<open>name\<close>, \<^verbatim>\<open>benefit_amount\<close> and \<^verbatim>\<open>how_to_apply\<close> by
  subscript, which raises \<^verbatim>\<open>KeyError\<close> on a missing key, and the others with
  \<^verbatim>\<open>get\<close> and a default.
\<close>

record Scheme =
  name :: "string option"
  name_hi :: "string option"
  benefit_amount :: "string option"
  documents :: "string list option"
  how_to_apply :: "string option"
  eligibility :: "EligibilityRules option"

text \<open>One element of the list \<^verbatim>\<open>match_schemes\<close> builds: \<^verbatim>\<open>{"scheme": ..., "score": ...}\<close>.\<close>

record Match =
  scheme :: Scheme
  score :: int

subsection \<open>Python truthiness and string helpers\<close>

text \<open>
  An optional flag used as a condition (\<^verbatim>\<open>rules.get("bpl_required")\<close>,
  \<^verbatim>\<open>profile.bpl_status\<close>): it is there and true.
\<close>

definition flag_set :: "bool option \<Rightarrow> bool" where
  "flag_set b \<longleftrightarrow> b = Some True"

text \<open>An optional string used as a condition: not \<^verbatim>\<open>None\<close> and not empty.\<close>

definition str_truthy :: "string option \<Rightarrow> bool" where
  "str_truthy s \<longleftrightarrow> (case s of None \<Rightarrow> False | Some v \<Rightarrow> v \<noteq> [])"

text \<open>
  \<^verbatim>\<open>str.lower\<close> follows the Unicode case tables of the Python runtime, which are not
  part of the repository; the functions that call it take it as the parameter
  \<open>lower\<close>. On a string of ASCII characters it is the map below, which is used for
  the concrete (ASCII) inputs only.
\<close>

definition lower_ascii_char :: "char \<Rightarrow> char" where
  "lower_ascii_char c =
     (case map_of (zip ''ABCDEFGHIJKLMNOPQRSTUVWXYZ'' ''abcdefghijklmnopqrstuvwxyz'') c of
        None \<Rightarrow> c | Some d \<Rightarrow> d)"

definition lower_ascii :: "string \<Rightarrow> string" where
  "lower_ascii s = map lower_ascii_char s"

text \<open>\<^verbatim>\<open>needle in hay\<close> on strings: the substring test.\<close>

fun str_contains :: "string \<Rightarrow> string \<Rightarrow> bool" where
  "str_contains needle [] \<longleftrightarrow> needle = []"
| "str_contains needle (c # cs) \<longleftrightarrow> prefix needle (c # cs) \<or> str_contains needle cs"

text \<open>The literal \<^verbatim>\<open>"RUPEE-SIGN 5,00,000"\<close>; the rupee sign U+20B9 is E2 82 B9 in UTF-8.\<close>

definition five_lakh_literal :: string where
  "five_lakh_literal = CHR 0xE2 # CHR 0x82 # CHR 0xB9 # ''5,00,000''"

text \<open>\<^verbatim>\<open>xs[:n]\<close>: a negative \<open>n\<close> counts from the end.\<close>

definition slice_to :: "int \<Rightarrow> 'a list \<Rightarrow> 'a list" where
  "slice_to n xs = (if 0 \<le> n then take (nat n) xs else take (length xs - nat (- n)) xs)"

subsection \<open>The hard filter\<close>

text \<open>
  \<^verbatim>\<open>_passes_filter\<close>: ten guarded blocks, each an early \<^verbatim>\<open>return False\<close>, in the
  order of the source, then \<^verbatim>\<open>return True\<close>.
\<close>

definition passes_filter :: "(string \<Rightarrow> string) \<Rightarrow> CitizenProfile \<Rightarrow> EligibilityRules \<Rightarrow> bool" where
  "passes_filter lower p r =
     (if (case (r_age_min r, age p) of (Some lo, Some a) \<Rightarrow> a < lo | _ \<Rightarrow> False) then False
      else if (case (r_age_max r, age p) of (Some hi, Some a) \<Rightarrow> a > hi | _ \<Rightarrow> False) then False
      else if (case (r_gender r, gender p) of
                 (Some gs, Some g) \<Rightarrow> g \<notin> set gs | _ \<Rightarrow> False) then False
      else if (case (r_states r, state p) of
                 (Some ss, Some s) \<Rightarrow> lower s \<notin> set (map lower ss) | _ \<Rightarrow> False) then False
      else if (case (r_occupations r, occupation p) of
                 (Some os, Some oc) \<Rightarrow> oc \<notin> set os | _ \<Rightarrow> False) then False
      else if (case (r_categories r, category p) of
                 (Some cs, Some c) \<Rightarrow> c \<notin> set cs | _ \<Rightarrow> False) then False
      else if (case (r_income_max r, annual_income p) of
                 (Some hi, Some i) \<Rightarrow> i > hi | _ \<Rightarrow> False) then False
      else if flag_set (r_bpl_required r) \<and>
              (case bpl_status p of Some b \<Rightarrow> \<not> b | None \<Rightarrow> False) then False
      else if (flag_set (r_disability_required r) \<or> flag_set (r_disability r)) \<and>
              (case disability p of Some d \<Rightarrow> \<not> d | None \<Rightarrow> False) then False
      else if flag_set (r_land_required r) \<and>
              (case land_ownership p of Some l \<Rightarrow> \<not> l | None \<Rightarrow> False) then False
      else if (case (r_marital_status r, marital_status p) of
                 (Some ms, Some m) \<Rightarrow> m \<notin> set ms | _ \<Rightarrow> False) then False
      else True)"

subsection \<open>The relevance score\<close>

text \<open>\<^verbatim>\<open>scheme.get("eligibility", {})\<close> and \<^verbatim>\<open>scheme.get("benefit_amount", "")\<close>.\<close>

definition rules_of :: "Scheme \<Rightarrow> EligibilityRules" where
  "rules_of s = (case eligibility s of None \<Rightarrow> no_rules | Some r \<Rightarrow> r)"

definition benefit_of :: "Scheme \<Rightarrow> string" where
  "benefit_of s = (case benefit_amount s of None \<Rightarrow> [] | Some b \<Rightarrow> b)"

text \<open>
  \<^verbatim>\<open>_relevance_score\<close>: the variable \<^verbatim>\<open>score\<close> starts at 50 and is updated by the
  five blocks in turn, each with the two nested conditions of the source; the result
  is \<^verbatim>\<open>min(score, 100)\<close>.
\<close>

definition relevance_score :: "(string \<Rightarrow> string) \<Rightarrow> CitizenProfile \<Rightarrow> Scheme \<Rightarrow> int" where
  "relevance_score lower p s =
     (let score0 = 50;
          rules = rules_of s;
          score1 = (if r_occupations rules \<noteq> None \<and> str_truthy (occupation p)
                    then (if the (occupation p) \<in> set (the (r_occupations rules))
                          then score0 + 15 else score0)
                    else score0);
          score2 = (if r_categories rules \<noteq> None \<and> str_truthy (category p)
                    then (if the (category p) \<in> set (the (r_categories rules))
                          then score1 + 10 else score1)
                    else score1);
          score3 = (if r_gender rules \<noteq> None \<and> str_truthy (gender p)
                    then (if the (gender p) \<in> set (the (r_gender rules))
                          then score2 + 10 else score2)
                    else score2);
          score4 = (if flag_set (r_bpl_required rules) \<and> flag_set (bpl_status p)
                    then score3 + 10 else score3);
          benefit = benefit_of s;
          score5 = (if str_contains ''lakh'' (lower benefit) \<or>
                       str_contains five_lakh_literal benefit
                    then score4 + 5 else score4)
      in min score5 100)"









subsection \<open>Matching\<close>

text \<open>
  \<^verbatim>\<open>_load_schemes\<close>: the module variable \<^verbatim>\<open>_schemes\<close> is \<^verbatim>\<open>None\<close> until the first
  call, which reads the catalog file and keeps its contents; later calls return what
  was kept. The parsed contents of the file are the parameter \<open>file\<close>, the module
  variable is the state \<open>cache\<close>.
\<close>

definition load_schemes :: "Scheme list \<Rightarrow> Scheme list option \<Rightarrow> Scheme list \<times> Scheme list option" where
  "load_schemes file cache =
     (case cache of None \<Rightarrow> (file, Some file) | Some schemes \<Rightarrow> (schemes, Some schemes))"

text \<open>
  The loop of \<^verbatim>\<open>match_schemes\<close> appends a match for each scheme whose rule set is
  empty or passes the filter.
\<close>

definition eligible :: "(string \<Rightarrow> string) \<Rightarrow> CitizenProfile \<Rightarrow> Scheme \<Rightarrow> bool" where
  "eligible lower p s \<longleftrightarrow> rules_empty (rules_of s) \<or> passes_filter lower p (rules_of s)"

fun collect_matches :: "(string \<Rightarrow> string) \<Rightarrow> CitizenProfile \<Rightarrow> Scheme list \<Rightarrow> Match list" where
  "collect_matches lower p [] = []"
| "collect_matches lower p (s # rest) =
     (if eligible lower p s
      then \<lparr>scheme = s, score = relevance_score lower p s\<rparr> # collect_matches lower p rest
      else collect_matches lower p rest)"

text \<open>
  The body of \<^verbatim>\<open>match_schemes\<close> on the catalog that \<^verbatim>\<open>_load_schemes()\<close> returned.
  \<^verbatim>\<open>matches.sort(key=lambda m: m["score"], reverse=True)\<close>: Python's sort is stable,
  also with \<^verbatim>\<open>reverse=True\<close>; a stable insertion sort on the negated score is the
  same list. Then \<^verbatim>\<open>matches[:max_results]\<close>.
\<close>

definition match_schemes ::
  "(string \<Rightarrow> string) \<Rightarrow> Scheme list \<Rightarrow> CitizenProfile \<Rightarrow> int \<Rightarrow> Match list"
where
  "match_schemes lower catalog p max_results =
     slice_to max_results (sort_key (\<lambda>m. - score m) (collect_matches lower p catalog))"

text \<open>\<^verbatim>\<open>match_schemes\<close> with its call of \<^verbatim>\<open>_load_schemes()\<close> and the state it leaves.\<close>

definition run_match_schemes ::
  "(string \<Rightarrow> string) \<Rightarrow> Scheme list \<Rightarrow> Scheme list option \<Rightarrow> CitizenProfile \<Rightarrow> int
     \<Rightarrow> Match list \<times> Scheme list option"
where
  "run_match_schemes lower file cache p max_results =
     (case load_schemes file cache of
        (schemes, cache') \<Rightarrow> (match_schemes lower schemes p max_results, cache'))"

text \<open>The rule set and the scheme of Scenario A of the specification.\<close>

definition scenario_A_rules :: EligibilityRules where
  "scenario_A_rules = no_rules\<lparr>r_occupations := Some [''farmer''], r_income_max := Some 200000\<rparr>"

definition scenario_A_scheme :: Scheme where
  "scenario_A_scheme =
     \<lparr>name = Some ''Scheme A'', name_hi = None, benefit_amount = None, documents = None,
      how_to_apply = None, eligibility = Some scenario_A_rules\<rparr>"

subsection \<open>Rule kinds\<close>

text \<open>
  The twelve rule keys of the filter, the profile field each one is checked against,
  and the rule set with one key deleted or with one key alone. They serve to say
  which rule a rejection is due to.
\<close>

datatype rule_key =
  AgeMin | AgeMax | GenderRule | StatesRule | OccupationsRule | CategoriesRule | IncomeMax
  | BplRequired | DisabilityRequired | DisabilityAlias | LandRequired | MaritalStatusRule

definition all_rule_keys :: "rule_key list" where
  "all_rule_keys =
     [AgeMin, AgeMax, GenderRule, StatesRule, OccupationsRule, CategoriesRule, IncomeMax,
      BplRequired, DisabilityRequired, DisabilityAlias, LandRequired, MaritalStatusRule]"

fun field_known :: "rule_key \<Rightarrow> CitizenProfile \<Rightarrow> bool" where
  "field_known AgeMin p \<longleftrightarrow> age p \<noteq> None"
| "field_known AgeMax p \<longleftrightarrow> age p \<noteq> None"
| "field_known GenderRule p \<longleftrightarrow> gender p \<noteq> None"
| "field_known StatesRule p \<longleftrightarrow> state p \<noteq> None"
| "field_known OccupationsRule p \<longleftrightarrow> occupation p \<noteq> None"
| "field_known CategoriesRule p \<longleftrightarrow> category p \<noteq> None"
| "field_known IncomeMax p \<longleftrightarrow> annual_income p \<noteq> None"
| "field_known BplRequired p \<longleftrightarrow> bpl_status p \<noteq> None"
| "field_known DisabilityRequired p \<longleftrightarrow> disability p \<noteq> None"
| "field_known DisabilityAlias p \<longleftrightarrow> disability p \<noteq> None"
| "field_known LandRequired p \<longleftrightarrow> land_ownership p \<noteq> None"
| "field_known MaritalStatusRule p \<longleftrightarrow> marital_status p \<noteq> None"

fun rule_present :: "rule_key \<Rightarrow> EligibilityRules \<Rightarrow> bool" where
  "rule_present AgeMin r \<longleftrightarrow> r_age_min r \<noteq> None"
| "rule_present AgeMax r \<longleftrightarrow> r_age_max r \<noteq> None"
| "rule_present GenderRule r \<longleftrightarrow> r_gender r \<noteq> None"
| "rule_present StatesRule r \<longleftrightarrow> r_states r \<noteq> None"
| "rule_present OccupationsRule r \<longleftrightarrow> r_occupations r \<noteq> None"
| "rule_present CategoriesRule r \<longleftrightarrow> r_categories r \<noteq> None"
| "rule_present IncomeMax r \<longleftrightarrow> r_income_max r \<noteq> None"
| "rule_present BplRequired r \<longleftrightarrow> r_bpl_required r \<noteq> None"
| "rule_present DisabilityRequired r \<longleftrightarrow> r_disability_required r \<noteq> None"
| "rule_present DisabilityAlias r \<longleftrightarrow> r_disability r \<noteq> None"
| "rule_present LandRequired r \<longleftrightarrow> r_land_required r \<noteq> None"
| "rule_present MaritalStatusRule r \<longleftrightarrow> r_marital_status r \<noteq> None"

fun drop_rule :: "rule_key \<Rightarrow> EligibilityRules \<Rightarrow> EligibilityRules" where
  "drop_rule AgeMin r = r\<lparr>r_age_min := None\<rparr>"
| "drop_rule AgeMax r = r\<lparr>r_age_max := None\<rparr>"
| "drop_rule GenderRule r = r\<lparr>r_gender := None\<rparr>"
| "drop_rule StatesRule r = r\<lparr>r_states := None\<rparr>"
| "drop_rule OccupationsRule r = r\<lparr>r_occupations := None\<rparr>"
| "drop_rule CategoriesRule r = r\<lparr>r_categories := None\<rparr>"
| "drop_rule IncomeMax r = r\<lparr>r_income_max := None\<rparr>"
| "drop_rule BplRequired r = r\<lparr>r_bpl_required := None\<rparr>"
| "drop_rule DisabilityRequired r = r\<lparr>r_disability_required := None\<rparr>"
| "drop_rule DisabilityAlias r = r\<lparr>r_disability := None\<rparr>"
| "drop_rule LandRequired r = r\<lparr>r_land_required := None\<rparr>"
| "drop_rule MaritalStatusRule r = r\<lparr>r_marital_status := None\<rparr>"

fun only_rule :: "rule_key \<Rightarrow> EligibilityRules \<Rightarrow> EligibilityRules" where
  "only_rule AgeMin r = no_rules\<lparr>r_age_min := r_age_min r\<rparr>"
| "only_rule AgeMax r = no_rules\<lparr>r_age_max := r_age_max r\<rparr>"
| "only_rule GenderRule r = no_rules\<lparr>r_gender := r_gender r\<rparr>"
| "only_rule StatesRule r = no_rules\<lparr>r_states := r_states r\<rparr>"
| "only_rule OccupationsRule r = no_rules\<lparr>r_occupations := r_occupations r\<rparr>"
| "only_rule CategoriesRule r = no_rules\<lparr>r_categories := r_categories r\<rparr>"
| "only_rule IncomeMax r = no_rules\<lparr>r_income_max := r_income_max r\<rparr>"
| "only_rule BplRequired r = no_rules\<lparr>r_bpl_required := r_bpl_required r\<rparr>"
| "only_rule DisabilityRequired r = no_rules\<lparr>r_disability_required := r_disability_required r\<rparr>"
| "only_rule DisabilityAlias r = no_rules\<lparr>r_disability := r_disability r\<rparr>"
| "only_rule LandRequired r = no_rules\<lparr>r_land_required := r_land_required r\<rparr>"
| "only_rule MaritalStatusRule r = no_rules\<lparr>r_marital_status := r_marital_status r\<rparr>"

text \<open>The condition under which the block of one rule key returns \<^verbatim>\<open>False\<close>.\<close>

fun rejects :: "(string \<Rightarrow> string) \<Rightarrow> rule_key \<Rightarrow> CitizenProfile \<Rightarrow> EligibilityRules \<Rightarrow> bool" where
  "rejects lower AgeMin p r \<longleftrightarrow>
     (case (r_age_min r, age p) of (Some lo, Some a) \<Rightarrow> a < lo | _ \<Rightarrow> False)"
| "rejects lower AgeMax p r \<longleftrightarrow>
     (case (r_age_max r, age p) of (Some hi, Some a) \<Rightarrow> a > hi | _ \<Rightarrow> False)"
| "rejects lower GenderRule p r \<longleftrightarrow>
     (case (r_gender r, gender p) of (Some gs, Some g) \<Rightarrow> g \<notin> set gs | _ \<Rightarrow> False)"
| "rejects lower StatesRule p r \<longleftrightarrow>
     (case (r_states r, state p) of
        (Some ss, Some s) \<Rightarrow> lower s \<notin> set (map lower ss) | _ \<Rightarrow> False)"
| "rejects lower OccupationsRule p r \<longleftrightarrow>
     (case (r_occupations r, occupation p) of (Some os, Some oc) \<Rightarrow> oc \<notin> set os | _ \<Rightarrow> False)"
| "rejects lower CategoriesRule p r \<longleftrightarrow>
     (case (r_categories r, category p) of (Some cs, Some c) \<Rightarrow> c \<notin> set cs | _ \<Rightarrow> False)"
| "rejects lower IncomeMax p r \<longleftrightarrow>
     (case (r_income_max r, annual_income p) of (Some hi, Some i) \<Rightarrow> i > hi | _ \<Rightarrow> False)"
| "rejects lower BplRequired p r \<longleftrightarrow>
     flag_set (r_bpl_required r) \<and> (case bpl_status p of Some b \<Rightarrow> \<not> b | None \<Rightarrow> False)"
| "rejects lower DisabilityRequired p r \<longleftrightarrow>
     flag_set (r_disability_required r) \<and> (case disability p of Some d \<Rightarrow> \<not> d | None \<Rightarrow> False)"
| "rejects lower DisabilityAlias p r \<longleftrightarrow>
     flag_set (r_disability r) \<and> (case disability p of Some d \<Rightarrow> \<not> d | None \<Rightarrow> False)"
| "rejects lower LandRequired p r \<longleftrightarrow>
     flag_set (r_land_required r) \<and> (case land_ownership p of Some l \<Rightarrow> \<not> l | None \<Rightarrow> False)"
| "rejects lower MaritalStatusRule p r \<longleftrightarrow>
     (case (r_marital_status r, marital_status p) of
        (Some ms, Some m) \<Rightarrow> m \<notin> set ms | _ \<Rightarrow> False)"

section \<open>The scheme-discovery handler (app/orchestrator.py)\<close>

text \<open>
  The table \<^verbatim>\<open>PROFILE_QUESTIONS\<close> maps a question identifier to a dict from language
  code to a text. The texts are literals in Hindi and English; a text is named here
  by its place in the table.
\<close>

datatype question_text = QuestionText string string

definition PROFILE_QUESTIONS :: "(string \<times> (string \<times> question_text) list) list" where
  "PROFILE_QUESTIONS =
     map (\<lambda>k. (k, [(''hi'', QuestionText k ''hi''), (''en'', QuestionText k ''en'')]))
       [''age'', ''gender'', ''state'', ''occupation'', ''category'', ''income'',
        ''marital_status'', ''bpl'']"

text \<open>
  Exceptions: \<^verbatim>\<open>KeyError\<close> with the missing key, \<^verbatim>\<open>TypeError\<close> for an unexpected
  keyword argument, and a failure of the hosted text model.
\<close>

datatype py_error = KeyError string | UnexpectedKeyword string | ServiceError string

text \<open>
  \<^verbatim>\<open>PROFILE_QUESTIONS.get(q, {}).get(language, PROFILE_QUESTIONS[q]["en"])\<close>: the
  default is evaluated before the second \<^verbatim>\<open>get\<close> runs, so an identifier that is not a
  key of the table raises \<^verbatim>\<open>KeyError\<close>.
\<close>

definition lookup_question :: "string \<Rightarrow> string \<Rightarrow> py_error + question_text" where
  "lookup_question q language =
     (case map_of PROFILE_QUESTIONS q of
        None \<Rightarrow> Inl (KeyError q)
      | Some texts \<Rightarrow>
          (case map_of texts ''en'' of
             None \<Rightarrow> Inl (KeyError ''en'')
           | Some dflt \<Rightarrow>
               (case map_of texts language of None \<Rightarrow> Inr dflt | Some t \<Rightarrow> Inr t)))"

text \<open>
  What the handler returns. The question branch returns the question after an
  introduction (\<^verbatim>\<open>intro.get(language, intro["en"])\<close>: Hindi for \<^verbatim>\<open>"hi"\<close>, English
  otherwise) or after a thank-you line (Hindi for \<^verbatim>\<open>"hi"\<close>, English otherwise); the
  first argument is the language of that line. \<^verbatim>\<open>explain_schemes\<close> returns a fixed
  English sentence for an empty match list and otherwise the text that the hosted
  model produced.
\<close>

datatype reply =
  IntroQuestion string question_text
  | NextQuestion string question_text
  | NoSchemesFound
  | ModelText string

text \<open>The entries stored in \<^verbatim>\<open>session.matched_schemes\<close>.\<close>

record SchemeSummary =
  summary_name :: string
  summary_benefit :: string
  summary_score :: int

text \<open>
  The fields of \<^verbatim>\<open>Session\<close> the handler reads or writes, and those that identify the
  session; the conversation history and the two timestamps are left out.
\<close>

record Session =
  session_id :: string
  user_id :: "string option"
  language :: string
  current_pillar :: string
  profile :: CitizenProfile
  matched_schemes :: "SchemeSummary list"

text \<open>
  The list comprehension over the matches: \<^verbatim>\<open>m["scheme"]["name"]\<close> and
  \<^verbatim>\<open>m["scheme"]["benefit_amount"]\<close> raise \<^verbatim>\<open>KeyError\<close> on a scheme without the key.
\<close>

fun summarise :: "Match list \<Rightarrow> py_error + SchemeSummary list" where
  "summarise [] = Inr []"
| "summarise (m # ms) =
     (case name (scheme m) of
        None \<Rightarrow> Inl (KeyError ''name'')
      | Some n \<Rightarrow>
          (case benefit_amount (scheme m) of
             None \<Rightarrow> Inl (KeyError ''benefit_amount'')
           | Some b \<Rightarrow>
               (case summarise ms of
                  Inl e \<Rightarrow> Inl e
                | Inr rest \<Rightarrow>
                    Inr (\<lparr>summary_name = n, summary_benefit = b, summary_score = score m\<rparr> # rest))))"

section \<open>Serialisation of the profile\<close>

text \<open>
  One entry of the dict that \<^verbatim>\<open>to_dict\<close> builds, or one keyword argument of the
  constructor: a field name with a value of the declared type of that field (or
  \<^verbatim>\<open>None\<close>), or a name that is no field of the dataclass.
\<close>

datatype kwarg =
  Kw_age "int option"
  | Kw_gender "string option"
  | Kw_state "string option"
  | Kw_district "string option"
  | Kw_occupation "string option"
  | Kw_category "string option"
  | Kw_annual_income "int option"
  | Kw_bpl_status "bool option"
  | Kw_disability "bool option"
  | Kw_marital_status "string option"
  | Kw_land_ownership "bool option"
  | Kw_education_level "string option"
  | Kw_family_members "int option"
  | Kw_children_count "int option"
  | Kw_children_in_school "bool option"
  | Kw_pregnant_in_family "bool option"
  | Kw_senior_in_family "bool option"
  | Kw_other string

text \<open>The key of an entry.\<close>

fun kwarg_name :: "kwarg \<Rightarrow> string" where
  "kwarg_name (Kw_age _) = ''age''"
| "kwarg_name (Kw_gender _) = ''gender''"
| "kwarg_name (Kw_state _) = ''state''"
| "kwarg_name (Kw_district _) = ''district''"
| "kwarg_name (Kw_occupation _) = ''occupation''"
| "kwarg_name (Kw_category _) = ''category''"
| "kwarg_name (Kw_annual_income _) = ''annual_income''"
| "kwarg_name (Kw_bpl_status _) = ''bpl_status''"
| "kwarg_name (Kw_disability _) = ''disability''"
| "kwarg_name (Kw_marital_status _) = ''marital_status''"
| "kwarg_name (Kw_land_ownership _) = ''land_ownership''"
| "kwarg_name (Kw_education_level _) = ''education_level''"
| "kwarg_name (Kw_family_members _) = ''family_members''"
| "kwarg_name (Kw_children_count _) = ''children_count''"
| "kwarg_name (Kw_children_in_school _) = ''children_in_school''"
| "kwarg_name (Kw_pregnant_in_family _) = ''pregnant_in_family''"
| "kwarg_name (Kw_senior_in_family _) = ''senior_in_family''"
| "kwarg_name (Kw_other k) = k"

text \<open>The entry of one field in the comprehension: kept \<^verbatim>\<open>if v is not None\<close>.\<close>

definition entry :: "('a option \<Rightarrow> kwarg) \<Rightarrow> 'a option \<Rightarrow> kwarg list" where
  "entry key v = (case v of None \<Rightarrow> [] | Some x \<Rightarrow> [key (Some x)])"

text \<open>
  \<^verbatim>\<open>to_dict\<close>: \<^verbatim>\<open>{k: v for k, v in asdict(self).items() if v is not None}\<close>. The dict
  keeps the order of the fields.
\<close>

definition to_dict :: "CitizenProfile \<Rightarrow> kwarg list" where
  "to_dict p =
     entry Kw_age (age p) @ entry Kw_gender (gender p) @
     entry Kw_state (state p) @ entry Kw_district (district p) @
     entry Kw_occupation (occupation p) @ entry Kw_category (category p) @
     entry Kw_annual_income (annual_income p) @ entry Kw_bpl_status (bpl_status p) @
     entry Kw_disability (disability p) @ entry Kw_marital_status (marital_status p) @
     entry Kw_land_ownership (land_ownership p) @
     entry Kw_education_level (education_level p) @
     entry Kw_family_members (family_members p) @
     entry Kw_children_count (children_count p) @
     entry Kw_children_in_school (children_in_school p) @
     entry Kw_pregnant_in_family (pregnant_in_family p) @
     entry Kw_senior_in_family (senior_in_family p)"

text \<open>
  One keyword argument of \<^verbatim>\<open>CitizenProfile(**d)\<close>: the field of that name is set; a
  name that is no field raises \<^verbatim>\<open>TypeError\<close> (unexpected keyword argument).
\<close>

fun set_field :: "kwarg \<Rightarrow> CitizenProfile \<Rightarrow> py_error + CitizenProfile" where
  "set_field (Kw_age v) p = Inr (p\<lparr>age := v\<rparr>)"
| "set_field (Kw_gender v) p = Inr (p\<lparr>gender := v\<rparr>)"
| "set_field (Kw_state v) p = Inr (p\<lparr>state := v\<rparr>)"
| "set_field (Kw_district v) p = Inr (p\<lparr>district := v\<rparr>)"
| "set_field (Kw_occupation v) p = Inr (p\<lparr>occupation := v\<rparr>)"
| "set_field (Kw_category v) p = Inr (p\<lparr>category := v\<rparr>)"
| "set_field (Kw_annual_income v) p = Inr (p\<lparr>annual_income := v\<rparr>)"
| "set_field (Kw_bpl_status v) p = Inr (p\<lparr>bpl_status := v\<rparr>)"
| "set_field (Kw_disability v) p = Inr (p\<lparr>disability := v\<rparr>)"
| "set_field (Kw_marital_status v) p = Inr (p\<lparr>marital_status := v\<rparr>)"
| "set_field (Kw_land_ownership v) p = Inr (p\<lparr>land_ownership := v\<rparr>)"
| "set_field (Kw_education_level v) p = Inr (p\<lparr>education_level := v\<rparr>)"
| "set_field (Kw_family_members v) p = Inr (p\<lparr>family_members := v\<rparr>)"
| "set_field (Kw_children_count v) p = Inr (p\<lparr>children_count := v\<rparr>)"
| "set_field (Kw_children_in_school v) p = Inr (p\<lparr>children_in_school := v\<rparr>)"
| "set_field (Kw_pregnant_in_family v) p = Inr (p\<lparr>pregnant_in_family := v\<rparr>)"
| "set_field (Kw_senior_in_family v) p = Inr (p\<lparr>senior_in_family := v\<rparr>)"
| "set_field (Kw_other k) p = Inl (UnexpectedKeyword k)"

fun init_fields :: "kwarg list \<Rightarrow> CitizenProfile \<Rightarrow> py_error + CitizenProfile" where
  "init_fields [] p = Inr p"
| "init_fields (kw # kwargs) p =
     (case set_field kw p of Inl e \<Rightarrow> Inl e | Inr p' \<Rightarrow> init_fields kwargs p')"

text \<open>\<^verbatim>\<open>CitizenProfile(**d)\<close>: every field defaults to \<^verbatim>\<open>None\<close>, then the keywords.\<close>

definition CitizenProfile_init :: "kwarg list \<Rightarrow> py_error + CitizenProfile" where
  "CitizenProfile_init kwargs = init_fields kwargs empty_profile"

section \<open>Explaining the matches (app/services/scheme\_matcher.py)\<close>

text \<open>
  One block of the prompt that \<^verbatim>\<open>explain_schemes\<close> builds for a match: its number,
  \<^verbatim>\<open>s['name']\<close>, \<^verbatim>\<open>s.get('name_hi', '')\<close>, \<^verbatim>\<open>s['benefit_amount']\<close>,
  \<^verbatim>\<open>s.get('documents', [])\<close> and \<^verbatim>\<open>s['how_to_apply']\<close>.
\<close>

record SchemeLine =
  line_number :: nat
  line_name :: string
  line_name_hi :: string
  line_benefit :: string
  line_documents :: "string list"
  line_how_to_apply :: string

text \<open>
  The loop over \<^verbatim>\<open>enumerate(matched_schemes[:5], 1)\<close>. The three subscripts are
  evaluated in the order of the format string; the first missing key raises
  \<^verbatim>\<open>KeyError\<close>.
\<close>

fun scheme_lines :: "nat \<Rightarrow> Match list \<Rightarrow> py_error + SchemeLine list" where
  "scheme_lines i [] = Inr []"
| "scheme_lines i (m # ms) =
     (case name (scheme m) of
        None \<Rightarrow> Inl (KeyError ''name'')
      | Some n \<Rightarrow>
          (case benefit_amount (scheme m) of
             None \<Rightarrow> Inl (KeyError ''benefit_amount'')
           | Some b \<Rightarrow>
               (case how_to_apply (scheme m) of
                  None \<Rightarrow> Inl (KeyError ''how_to_apply'')
                | Some h \<Rightarrow>
                    (case scheme_lines (Suc i) ms of
                       Inl e \<Rightarrow> Inl e
                     | Inr rest \<Rightarrow>
                         Inr (\<lparr>line_number = i, line_name = n,
                               line_name_hi = (case name_hi (scheme m) of None \<Rightarrow> [] | Some h' \<Rightarrow> h'),
                               line_benefit = b,
                               line_documents =
                                 (case documents (scheme m) of None \<Rightarrow> [] | Some ds \<Rightarrow> ds),
                               line_how_to_apply = h\<rparr> # rest)))))"

text \<open>
  \<^verbatim>\<open>explain_schemes\<close>. The hosted text model behind \<^verbatim>\<open>generate_response\<close> is the
  parameter \<open>generate\<close>: from what the prompt is built of (the scheme blocks, the
  profile dict and the language) it gives the text, or fails.
\<close>

definition explain_schemes ::
  "(SchemeLine list \<Rightarrow> kwarg list \<Rightarrow> string \<Rightarrow> py_error + string)
     \<Rightarrow> Match list \<Rightarrow> CitizenProfile \<Rightarrow> string \<Rightarrow> py_error + reply"
where
  "explain_schemes generate matched p lang =
     (if matched = [] then Inr NoSchemesFound
      else
        (case scheme_lines 1 (take 5 matched) of
           Inl e \<Rightarrow> Inl e
         | Inr lines \<Rightarrow>
             (case generate lines (to_dict p) lang of
                Inl e \<Rightarrow> Inl e
              | Inr text \<Rightarrow> Inr (ModelText text))))"

section \<open>The handler\<close>

text \<open>
  \<^verbatim>\<open>_handle_scheme_discovery\<close>. The result is the state of the module variable
  \<^verbatim>\<open>_schemes\<close> after the call, the session as the handler leaves it (it is updated
  in place, so it keeps an update made before an exception), and the reply or the
  exception raised. \<^verbatim>\<open>match_schemes\<close> is called with the default \<^verbatim>\<open>max_results\<close> 7.
  The parameter \<^verbatim>\<open>user_message\<close> is not used by the source.
\<close>

definition handle_scheme_discovery ::
  "(string \<Rightarrow> string) \<Rightarrow> (SchemeLine list \<Rightarrow> kwarg list \<Rightarrow> string \<Rightarrow> py_error + string)
     \<Rightarrow> Scheme list \<Rightarrow> Scheme list option \<Rightarrow> Session \<Rightarrow> string
     \<Rightarrow> Scheme list option \<times> Session \<times> (py_error + reply)"
where
  "handle_scheme_discovery lower generate file cache session lang =
     (let next_question = get_profiling_question (profile session) in
      if str_truthy next_question \<and> completeness_score (profile session) < 5 / 10 then
        (case lookup_question (the next_question) lang of
           Inl e \<Rightarrow> (cache, session, Inl e)
         | Inr question \<Rightarrow>
             if completeness_score (profile session) = 0
             then (cache, session,
                   Inr (IntroQuestion (if lang = ''hi'' then ''hi'' else ''en'') question))
             else (cache, session,
                   Inr (NextQuestion (if lang = ''hi'' then ''hi'' else ''en'') question)))
      else
        (case run_match_schemes lower file cache (profile session) 7 of
           (matches, cache') \<Rightarrow>
             (case summarise matches of
                Inl e \<Rightarrow> (cache', session, Inl e)
              | Inr summaries \<Rightarrow>
                  (cache', session\<lparr>matched_schemes := summaries\<rparr>,
                   explain_schemes generate matches (profile session) lang))))"

text \<open>Whether a handler result is a profiling question.\<close>

fun is_question :: "py_error + reply \<Rightarrow> bool" where
  "is_question (Inr (IntroQuestion _ _)) = True"
| "is_question (Inr (NextQuestion _ _)) = True"
| "is_question _ = False"

text \<open>
  What the handler stores and sends for a match, in the words of the claim: the name,
  benefit and score of the match, and its block of the prompt. They are read off a
  scheme that has a name, a benefit text and instructions.
\<close>

definition summary_of :: "Match \<Rightarrow> SchemeSummary" where
  "summary_of m =
     \<lparr>summary_name = the (name (scheme m)), summary_benefit = the (benefit_amount (scheme m)),
      summary_score = score m\<rparr>"

definition line_of :: "nat \<Rightarrow> Match \<Rightarrow> SchemeLine" where
  "line_of i m =
     \<lparr>line_number = i, line_name = the (name (scheme m)),
      line_name_hi = (case name_hi (scheme m) of None \<Rightarrow> [] | Some h \<Rightarrow> h),
      line_benefit = the (benefit_amount (scheme m)),
      line_documents = (case documents (scheme m) of None \<Rightarrow> [] | Some ds \<Rightarrow> ds),
      line_how_to_apply = the (how_to_apply (scheme m))\<rparr>"

section \<open>Concrete inputs\<close>

text \<open>Scenario A with the income not yet known: five of the six critical fields.\<close>

definition five_of_six_profile :: CitizenProfile where
  "five_of_six_profile = scenario_A_profile\<lparr>annual_income := None\<rparr>"

text \<open>Profiles that know the first one, two, three and four fields of the scan.\<close>

definition age_only_profile :: CitizenProfile where
  "age_only_profile = empty_profile\<lparr>age := Some 35\<rparr>"




text \<open>All eight fields of the scan are known.\<close>

definition eight_known_profile :: CitizenProfile where
  "eight_known_profile =
     scenario_A_profile\<lparr>marital_status := Some ''married'', bpl_status := Some False\<rparr>"

text \<open>
  Scenario B of the specification (age 70 against an upper bound of 60), with a
  gender rule added that the profile cannot be checked against.
\<close>

definition scenario_B_profile :: CitizenProfile where
  "scenario_B_profile = empty_profile\<lparr>age := Some 70\<rparr>"

definition scenario_B_rules :: EligibilityRules where
  "scenario_B_rules = no_rules\<lparr>r_age_max := Some 60, r_gender := Some [''female'']\<rparr>"





text \<open>
  A small catalog: two schemes without rules (one has no \<^verbatim>\<open>eligibility\<close> key, one an
  empty rule set), one whose rule set holds only a key the filter does not know, one
  with a lower age bound of 60, and the scheme of Scenario A.
\<close>

definition universal_scheme :: Scheme where
  "universal_scheme =
     \<lparr>name = Some ''Universal cover'', name_hi = None,
      benefit_amount = Some ''Rs 2 Lakh insurance'', documents = None,
      how_to_apply = Some ''At any bank branch'', eligibility = None\<rparr>"

definition plain_scheme :: Scheme where
  "plain_scheme =
     \<lparr>name = Some ''Plain'', name_hi = None, benefit_amount = Some ''Rs 500 per month'',
      documents = None, how_to_apply = Some ''Online'', eligibility = Some no_rules\<rparr>"

definition second_plain_scheme :: Scheme where
  "second_plain_scheme =
     \<lparr>name = Some ''Plain two'', name_hi = None, benefit_amount = Some ''Rs 300 per month'',
      documents = None, how_to_apply = Some ''Online'',
      eligibility = Some (no_rules\<lparr>r_other_keys := [''notes'']\<rparr>)\<rparr>"

definition senior_scheme :: Scheme where
  "senior_scheme =
     \<lparr>name = Some ''Senior pension'', name_hi = None,
      benefit_amount = Some ''Rs 1000 per month'', documents = None,
      how_to_apply = Some ''At the post office'',
      eligibility = Some (no_rules\<lparr>r_age_min := Some 60\<rparr>)\<rparr>"

definition demo_catalog :: "Scheme list" where
  "demo_catalog = [plain_scheme, senior_scheme, universal_scheme, second_plain_scheme,
     scenario_A_scheme]"

text \<open>A catalog whose schemes all have a name, a benefit text and instructions.\<close>

definition named_catalog :: "Scheme list" where
  "named_catalog = [plain_scheme, senior_scheme, universal_scheme, second_plain_scheme]"

text \<open>A text model that always answers with the same text.\<close>

definition fixed_model :: "SchemeLine list \<Rightarrow> kwarg list \<Rightarrow> string \<Rightarrow> py_error + string" where
  "fixed_model lines d lang = Inr ''These schemes are for you''"

text \<open>Two sessions: one that knows only the age, one with the Scenario A profile.\<close>

definition asking_session :: Session where
  "asking_session =
     \<lparr>session_id = ''s1'', user_id = None, language = ''ta'', current_pillar = ''scheme_discovery'',
      profile = age_only_profile, matched_schemes = []\<rparr>"

definition matching_session :: Session where
  "matching_session =
     \<lparr>session_id = ''s2'', user_id = None, language = ''hi'', current_pillar = ''scheme_discovery'',
      profile = scenario_A_profile, matched_schemes = []\<rparr>"

section \<open>Properties of the profiling state machine\<close>

lemma critical_filled_le: "critical_filled p \<le> 6"
  by (simp add: critical_filled_def)

lemma threshold_iff: "completeness_score p \<ge> 8 / 10 \<longleftrightarrow> 5 \<le> critical_filled p"
proof -
  have "(8 / 10 :: rat) \<le> of_nat n / 6 \<longleftrightarrow> 5 \<le> n" for n :: nat
  proof -
    have "(8 / 10 :: rat) \<le> of_nat n / 6 \<longleftrightarrow> (48 :: rat) \<le> 10 * of_nat n"
      by (simp add: field_simps)
    also have "\<dots> \<longleftrightarrow> (48 :: nat) \<le> 10 * n"
      by (metis of_nat_le_iff of_nat_mult of_nat_numeral)
    also have "\<dots> \<longleftrightarrow> 5 \<le> n" by arith
    finally show ?thesis .
  qed
  then show ?thesis by (simp add: completeness_score_def)
qed

lemma all_critical_filled:
  "age p \<noteq> None \<Longrightarrow> gender p \<noteq> None \<Longrightarrow> state p \<noteq> None \<Longrightarrow> occupation p \<noteq> None \<Longrightarrow>
   category p \<noteq> None \<Longrightarrow> annual_income p \<noteq> None \<Longrightarrow> critical_filled p = 6"
  by (simp add: critical_filled_def)

lemma below_threshold_has_null:
  assumes "\<not> completeness_score p \<ge> 8 / 10"
  shows "age p = None \<or> gender p = None \<or> state p = None \<or> occupation p = None \<or>
     category p = None \<or> annual_income p = None"
proof (rule ccontr)
  assume "\<not> ?thesis"
  then have "critical_filled p = 6"
    by (intro all_critical_filled) simp_all
  then have "completeness_score p \<ge> 8 / 10"
    by (subst threshold_iff) simp
  with assms show False by contradiction
qed



text \<open>
  Claim C1 fails on the code. The Scenario A profile has all six critical fields,
  so its completeness score is 1; its marital status is unknown; and the function
  reports no question, not \<^verbatim>\<open>"marital_status"\<close>.
\<close>

theorem complete_profile_pending_counterexample:
  "completeness_score scenario_A_profile \<ge> 8 / 10 \<and>
   marital_status scenario_A_profile = None \<and>
   get_profiling_question scenario_A_profile \<noteq> Some ''marital_status'' \<and>
   get_profiling_question scenario_A_profile = None"
  by (simp add: get_profiling_question_def completeness_score_def critical_filled_def
      scenario_A_profile_def empty_profile_def)

text \<open>
  Claim C1, amended: for every profile whose completeness score is at least 0.8,
  \<^verbatim>\<open>get_profiling_question\<close> returns \<^verbatim>\<open>None\<close> (the profile is reported complete),
  whether or not \<^verbatim>\<open>marital_status\<close> or \<^verbatim>\<open>bpl_status\<close> is still null.
\<close>

theorem complete_profile_no_question:
  "completeness_score p \<ge> 8 / 10 \<Longrightarrow> get_profiling_question p = None"
  by (simp add: get_profiling_question_def)

theorem complete_profile_no_question_witness:
  "completeness_score five_of_six_profile \<ge> 8 / 10 \<and>
   marital_status five_of_six_profile = None \<and> bpl_status five_of_six_profile = None \<and>
   get_profiling_question five_of_six_profile = None"
proof -
  have h: "completeness_score five_of_six_profile \<ge> 8 / 10"
    by (simp add: completeness_score_def critical_filled_def five_of_six_profile_def
        scenario_A_profile_def empty_profile_def)
  show ?thesis
    using h complete_profile_no_question [OF h]
    by (simp add: five_of_six_profile_def scenario_A_profile_def empty_profile_def)
qed

text \<open>
  Claim C2: for every profile with completeness score below 0.8,
  \<^verbatim>\<open>get_profiling_question\<close> returns the identifier of the first null field in the
  fixed priority order age, gender, state, occupation, category, income,
  marital\_status, bpl\_status; and once all eight fields are non-null it returns no
  question.
\<close>

theorem profiling_question_is_first_null:
  "(completeness_score p < 8 / 10 \<longrightarrow>
      get_profiling_question p = first_null (priority_fields p)) \<and>
   (age p \<noteq> None \<and> gender p \<noteq> None \<and> state p \<noteq> None \<and> occupation p \<noteq> None \<and>
    category p \<noteq> None \<and> annual_income p \<noteq> None \<and> marital_status p \<noteq> None \<and>
    bpl_status p \<noteq> None \<longrightarrow> get_profiling_question p = None)"
  by (auto simp: get_profiling_question_def priority_fields_def)

theorem profiling_question_is_first_null_witness:
  "completeness_score age_only_profile < 8 / 10 \<and>
   first_null (priority_fields age_only_profile) = Some ''gender'' \<and>
   get_profiling_question age_only_profile = Some ''gender'' \<and>
   bpl_status eight_known_profile \<noteq> None \<and> marital_status eight_known_profile \<noteq> None \<and>
   get_profiling_question eight_known_profile = None"
proof -
  have h: "completeness_score age_only_profile < 8 / 10"
    by (simp add: completeness_score_def critical_filled_def age_only_profile_def
        empty_profile_def)
  have f: "first_null (priority_fields age_only_profile) = Some ''gender''"
    by (simp add: priority_fields_def age_only_profile_def empty_profile_def)
  have e: "age eight_known_profile \<noteq> None \<and> gender eight_known_profile \<noteq> None \<and>
      state eight_known_profile \<noteq> None \<and> occupation eight_known_profile \<noteq> None \<and>
      category eight_known_profile \<noteq> None \<and> annual_income eight_known_profile \<noteq> None \<and>
      marital_status eight_known_profile \<noteq> None \<and> bpl_status eight_known_profile \<noteq> None"
    by (simp add: eight_known_profile_def scenario_A_profile_def empty_profile_def)
  show ?thesis
    using h f e profiling_question_is_first_null [of age_only_profile]
      profiling_question_is_first_null [of eight_known_profile]
    by simp
qed




section \<open>Properties of the eligibility filter\<close>

lemma rule_key_listed: "k \<in> set all_rule_keys"
  by (cases k) (simp_all add: all_rule_keys_def)

lemma passes_filter_iff: "passes_filter lower p r \<longleftrightarrow> (\<forall>k \<in> set all_rule_keys. \<not> rejects lower k p r)"
  by (auto simp: passes_filter_def all_rule_keys_def)

lemma passes_filter_iff_all: "passes_filter lower p r \<longleftrightarrow> (\<forall>k. \<not> rejects lower k p r)"
  using rule_key_listed by (auto simp: passes_filter_iff)

lemma rejects_known: "rejects lower k p r \<Longrightarrow> field_known k p \<and> rule_present k r"
  by (cases k) (auto simp: flag_set_def split: option.splits)

lemma rejects_drop: "rejects lower k p (drop_rule k' r) \<longleftrightarrow> k \<noteq> k' \<and> rejects lower k p r"
  by (cases k; cases k') (simp_all add: flag_set_def)

lemma rejects_only: "rejects lower k p (only_rule k' r) \<longleftrightarrow> k = k' \<and> rejects lower k p r"
  by (cases k; cases k') (simp_all add: flag_set_def no_rules_def)

text \<open>
  Claim C3: a rule whose profile field is null never causes a rejection, whatever
  the other rules are: deleting that rule from the rule set leaves the verdict of the
  filter unchanged; and whenever the filter rejects, some rule that is present, and
  whose profile field is known, rejects the profile on its own.
\<close>

theorem null_field_never_rejects:
  "(\<not> field_known k p \<longrightarrow> passes_filter lower p r = passes_filter lower p (drop_rule k r)) \<and>
   (\<not> passes_filter lower p r \<longrightarrow>
      (\<exists>k'. rule_present k' r \<and> field_known k' p \<and> \<not> passes_filter lower p (only_rule k' r)))"
proof (intro conjI impI)
  assume "\<not> field_known k p"
  then have "\<not> rejects lower k p r" using rejects_known by blast
  then show "passes_filter lower p r = passes_filter lower p (drop_rule k r)"
    unfolding passes_filter_iff_all rejects_drop by metis
next
  assume "\<not> passes_filter lower p r"
  then obtain k' where k': "rejects lower k' p r"
    unfolding passes_filter_iff_all by blast
  then have "\<not> passes_filter lower p (only_rule k' r)"
    unfolding passes_filter_iff_all rejects_only by blast
  with k' rejects_known show
    "\<exists>k'. rule_present k' r \<and> field_known k' p \<and> \<not> passes_filter lower p (only_rule k' r)"
    by blast
qed

theorem null_field_never_rejects_witness:
  "\<not> field_known GenderRule scenario_B_profile \<and>
   passes_filter lower_ascii scenario_B_profile scenario_B_rules =
     passes_filter lower_ascii scenario_B_profile (drop_rule GenderRule scenario_B_rules) \<and>
   \<not> passes_filter lower_ascii scenario_B_profile scenario_B_rules \<and>
   (\<exists>k'. rule_present k' scenario_B_rules \<and> field_known k' scenario_B_profile \<and>
      \<not> passes_filter lower_ascii scenario_B_profile (only_rule k' scenario_B_rules))"
  using null_field_never_rejects [of GenderRule scenario_B_profile lower_ascii scenario_B_rules]
  by (simp add: scenario_B_profile_def scenario_B_rules_def empty_profile_def no_rules_def
      passes_filter_def flag_set_def)

section \<open>The concrete catalog, evaluated\<close>

lemmas demo_defs = universal_scheme_def plain_scheme_def second_plain_scheme_def
  senior_scheme_def demo_catalog_def scenario_A_scheme_def scenario_A_rules_def
  scenario_A_profile_def empty_profile_def no_rules_def

lemmas score_defs = relevance_score_def rules_of_def benefit_of_def flag_set_def
  str_truthy_def lower_ascii_def lower_ascii_char_def five_lakh_literal_def

lemma demo_scores:
  "relevance_score lower_ascii scenario_A_profile plain_scheme = 50"
  "relevance_score lower_ascii scenario_A_profile universal_scheme = 55"
  "relevance_score lower_ascii scenario_A_profile second_plain_scheme = 50"
  "relevance_score lower_ascii scenario_A_profile scenario_A_scheme = 65"
  by (simp_all add: demo_defs score_defs)

lemma demo_eligible:
  "eligible lower_ascii scenario_A_profile plain_scheme"
  "\<not> eligible lower_ascii scenario_A_profile senior_scheme"
  "eligible lower_ascii scenario_A_profile universal_scheme"
  "eligible lower_ascii scenario_A_profile second_plain_scheme"
  "eligible lower_ascii scenario_A_profile scenario_A_scheme"
  by (simp_all add: eligible_def rules_empty_def passes_filter_def rules_of_def flag_set_def
      demo_defs)

lemma demo_collect:
  "collect_matches lower_ascii scenario_A_profile demo_catalog =
     [\<lparr>scheme = plain_scheme, score = 50\<rparr>, \<lparr>scheme = universal_scheme, score = 55\<rparr>,
      \<lparr>scheme = second_plain_scheme, score = 50\<rparr>, \<lparr>scheme = scenario_A_scheme, score = 65\<rparr>]"
  by (simp add: demo_catalog_def demo_eligible demo_scores)

lemma demo_match:
  "match_schemes lower_ascii demo_catalog scenario_A_profile 7 =
     [\<lparr>scheme = scenario_A_scheme, score = 65\<rparr>, \<lparr>scheme = universal_scheme, score = 55\<rparr>,
      \<lparr>scheme = plain_scheme, score = 50\<rparr>, \<lparr>scheme = second_plain_scheme, score = 50\<rparr>]"
  by (simp add: match_schemes_def demo_collect slice_to_def)

section \<open>Properties of the relevance score\<close>

















section \<open>Properties of the matcher\<close>

lemma collect_matches_eq:
  "collect_matches lower p cat =
     map (\<lambda>s. \<lparr>scheme = s, score = relevance_score lower p s\<rparr>) (filter (eligible lower p) cat)"
  by (induction cat) simp_all

lemma slice_to_take: "\<exists>j. slice_to n xs = take j xs"
  by (auto simp: slice_to_def)

lemma sorted_desc_sort: "sorted_wrt (\<lambda>a b. score b \<le> score a) (sort_key (\<lambda>m. - score m) ms)"
proof -
  have "sorted (map (\<lambda>m. - score m) (sort_key (\<lambda>m. - score m) ms))"
    by (rule sorted_sort_key)
  then show ?thesis by (simp add: sorted_map)
qed

lemma stable_desc_sort:
  "filter (\<lambda>m. score m = k) (sort_key (\<lambda>m. - score m) ms) = filter (\<lambda>m. score m = k) ms"
proof -
  have "filter (\<lambda>m. - score m = - k) (sort_key (\<lambda>m. - score m) ms)
      = filter (\<lambda>m. - score m = - k) ms"
    by (rule sort_key_stable)
  then show ?thesis by simp
qed

text \<open>
  Claim C5: the list returned by \<^verbatim>\<open>match_schemes\<close> is sorted by score in descending
  order, and for every score the schemes returned with that score are an initial
  segment of the catalog's eligible schemes with that score, in catalog order: entries
  with equal scores keep the relative order of the catalog.
\<close>

theorem match_schemes_sorted_stable:
  "sorted_wrt (\<lambda>a b. score b \<le> score a) (match_schemes lower cat p n) \<and>
   prefix (map scheme (filter (\<lambda>m. score m = k) (match_schemes lower cat p n)))
          (filter (\<lambda>s. eligible lower p s \<and> relevance_score lower p s = k) cat)"
proof
  obtain j where j: "match_schemes lower cat p n
      = take j (sort_key (\<lambda>m. - score m) (collect_matches lower p cat))"
    unfolding match_schemes_def using slice_to_take by blast
  show "sorted_wrt (\<lambda>a b. score b \<le> score a) (match_schemes lower cat p n)"
    unfolding j using sorted_desc_sort by (rule sorted_wrt_take)
  have "prefix (filter (\<lambda>m. score m = k) (match_schemes lower cat p n))
          (filter (\<lambda>m. score m = k) (sort_key (\<lambda>m. - score m) (collect_matches lower p cat)))"
    unfolding j by (rule filter_mono_prefix) (rule take_is_prefix)
  then have "prefix (filter (\<lambda>m. score m = k) (match_schemes lower cat p n))
          (filter (\<lambda>m. score m = k) (collect_matches lower p cat))"
    by (simp only: stable_desc_sort)
  then have "prefix (map scheme (filter (\<lambda>m. score m = k) (match_schemes lower cat p n)))
          (map scheme (filter (\<lambda>m. score m = k) (collect_matches lower p cat)))"
    by (rule map_mono_prefix)
  moreover have "map scheme (filter (\<lambda>m. score m = k) (collect_matches lower p cat))
      = filter (\<lambda>s. eligible lower p s \<and> relevance_score lower p s = k) cat"
    by (simp add: collect_matches_eq filter_map comp_def)
  ultimately show
    "prefix (map scheme (filter (\<lambda>m. score m = k) (match_schemes lower cat p n)))
          (filter (\<lambda>s. eligible lower p s \<and> relevance_score lower p s = k) cat)"
    by simp
qed

theorem match_schemes_sorted_stable_witness:
  "map score (match_schemes lower_ascii demo_catalog scenario_A_profile 7) = [65, 55, 50, 50] \<and>
   sorted_wrt (\<lambda>a b. score b \<le> score a)
     (match_schemes lower_ascii demo_catalog scenario_A_profile 7) \<and>
   map scheme (filter (\<lambda>m. score m = 50)
       (match_schemes lower_ascii demo_catalog scenario_A_profile 7))
     = [plain_scheme, second_plain_scheme] \<and>
   prefix [plain_scheme, second_plain_scheme]
     (filter (\<lambda>s. eligible lower_ascii scenario_A_profile s \<and>
                  relevance_score lower_ascii scenario_A_profile s = 50)
        demo_catalog)"
proof -
  have m: "map score (match_schemes lower_ascii demo_catalog scenario_A_profile 7)
      = [65, 55, 50, 50]"
    by (simp add: demo_match)
  have f: "map scheme (filter (\<lambda>m. score m = 50)
      (match_schemes lower_ascii demo_catalog scenario_A_profile 7))
        = [plain_scheme, second_plain_scheme]"
    by (simp add: demo_match)
  show ?thesis
    using m f match_schemes_sorted_stable [of lower_ascii demo_catalog scenario_A_profile 7 50]
    by simp
qed

lemma set_match_schemes:
  "set (match_schemes lower cat p n) \<subseteq> set (collect_matches lower p cat)"
proof -
  obtain j where "match_schemes lower cat p n
      = take j (sort_key (\<lambda>m. - score m) (collect_matches lower p cat))"
    unfolding match_schemes_def using slice_to_take by blast
  then show ?thesis
    using set_take_subset [of j "sort_key (\<lambda>m. - score m) (collect_matches lower p cat)"]
    by simp
qed

lemma length_slice_to: "0 \<le> n \<Longrightarrow> int (length (slice_to n xs)) \<le> n"
  by (simp add: slice_to_def)

lemma length_slice_to_le: "length (slice_to n xs) \<le> length xs"
  by (simp add: slice_to_def)

lemma length_collect_matches: "length (collect_matches lower p cat) \<le> length cat"
  by (simp add: collect_matches_eq)

text \<open>
  Claim C6: for every profile, catalog and \<^verbatim>\<open>max_results\<close> (a count: zero or more),
  \<^verbatim>\<open>match_schemes\<close> returns at most \<^verbatim>\<open>max_results\<close> entries; it returns no more
  entries than the catalog has schemes, the empty list when no scheme is eligible,
  and every returned entry is a scheme of the catalog with its relevance score that
  passes the filter when its rule set is non-empty.
\<close>

theorem match_schemes_bounded:
  "(0 \<le> n \<longrightarrow> int (length (match_schemes lower cat p n)) \<le> n) \<and>
   length (match_schemes lower cat p n) \<le> length cat \<and>
   (\<forall>m \<in> set (match_schemes lower cat p n).
      scheme m \<in> set cat \<and> score m = relevance_score lower p (scheme m) \<and>
      (\<not> rules_empty (rules_of (scheme m)) \<longrightarrow> passes_filter lower p (rules_of (scheme m)))) \<and>
   ((\<forall>s \<in> set cat. \<not> eligible lower p s) \<longrightarrow> match_schemes lower cat p n = [])"
proof (intro conjI impI ballI)
  assume "0 \<le> n"
  then show "int (length (match_schemes lower cat p n)) \<le> n"
    unfolding match_schemes_def by (rule length_slice_to)
next
  have "length (match_schemes lower cat p n) \<le> length (collect_matches lower p cat)"
    unfolding match_schemes_def
    using length_slice_to_le [of n "sort_key (\<lambda>m. - score m) (collect_matches lower p cat)"]
    by simp
  with length_collect_matches [of lower p cat]
  show "length (match_schemes lower cat p n) \<le> length cat"
    by linarith
next
  fix m assume "m \<in> set (match_schemes lower cat p n)"
  then have m: "m \<in> set (collect_matches lower p cat)" using set_match_schemes by blast
  then show "scheme m \<in> set cat" "score m = relevance_score lower p (scheme m)"
    by (auto simp: collect_matches_eq)
  assume "\<not> rules_empty (rules_of (scheme m))"
  with m show "passes_filter lower p (rules_of (scheme m))"
    by (auto simp: collect_matches_eq eligible_def)
next
  assume "\<forall>s \<in> set cat. \<not> eligible lower p s"
  then have "collect_matches lower p cat = []"
    by (simp add: collect_matches_eq)
  then show "match_schemes lower cat p n = []"
    by (simp add: match_schemes_def slice_to_def)
qed

theorem match_schemes_bounded_witness:
  "(0::int) \<le> 2 \<and>
   match_schemes lower_ascii demo_catalog scenario_A_profile 2 =
     [\<lparr>scheme = scenario_A_scheme, score = 65\<rparr>, \<lparr>scheme = universal_scheme, score = 55\<rparr>] \<and>
   int (length (match_schemes lower_ascii demo_catalog scenario_A_profile 2)) \<le> 2 \<and>
   \<not> rules_empty (rules_of scenario_A_scheme) \<and>
   passes_filter lower_ascii scenario_A_profile (rules_of scenario_A_scheme) \<and>
   \<not> eligible lower_ascii scenario_A_profile senior_scheme \<and>
   match_schemes lower_ascii [senior_scheme] scenario_A_profile 2 = []"
proof -
  have m: "match_schemes lower_ascii demo_catalog scenario_A_profile 2 =
     [\<lparr>scheme = scenario_A_scheme, score = 65\<rparr>, \<lparr>scheme = universal_scheme, score = 55\<rparr>]"
    by (simp add: match_schemes_def demo_collect slice_to_def)
  have r: "\<not> rules_empty (rules_of scenario_A_scheme)"
    by (simp add: rules_empty_def rules_of_def demo_defs)
  have e: "\<forall>s \<in> set [senior_scheme]. \<not> eligible lower_ascii scenario_A_profile s"
    by (simp add: demo_eligible)
  show ?thesis
    using m r e demo_eligible(2)
      match_schemes_bounded [of 2 lower_ascii demo_catalog scenario_A_profile]
      match_schemes_bounded [of 2 lower_ascii "[senior_scheme]" scenario_A_profile]
    by simp
qed

lemma slice_to_all: "int (length xs) \<le> n \<Longrightarrow> slice_to n xs = xs"
  by (simp add: slice_to_def)

text \<open>
  Claim C7: a rule set with none of the rule fields set passes the filter for every
  profile; and a scheme of the catalog whose \<^verbatim>\<open>eligibility\<close> is absent or empty is
  among the candidate matches for every profile (and in the returned list whenever
  \<^verbatim>\<open>max_results\<close> is at least the size of the catalog).
\<close>

theorem empty_rules_universal:
  "((\<forall>k \<in> set all_rule_keys. \<not> rule_present k r) \<longrightarrow> passes_filter lower p r) \<and>
   (s \<in> set cat \<and> (eligibility s = None \<or> (\<exists>r'. eligibility s = Some r' \<and> rules_empty r')) \<longrightarrow>
      \<lparr>scheme = s, score = relevance_score lower p s\<rparr> \<in> set (collect_matches lower p cat) \<and>
      (int (length cat) \<le> n \<longrightarrow>
         \<lparr>scheme = s, score = relevance_score lower p s\<rparr> \<in> set (match_schemes lower cat p n)))"
proof (intro conjI impI)
  assume "\<forall>k \<in> set all_rule_keys. \<not> rule_present k r"
  then show "passes_filter lower p r"
    unfolding passes_filter_iff using rejects_known by blast
next
  assume a: "s \<in> set cat \<and>
    (eligibility s = None \<or> (\<exists>r'. eligibility s = Some r' \<and> rules_empty r'))"
  then have "rules_empty (rules_of s)"
    by (auto simp: rules_of_def rules_empty_def no_rules_def)
  with a show c: "\<lparr>scheme = s, score = relevance_score lower p s\<rparr>
      \<in> set (collect_matches lower p cat)"
    by (simp add: collect_matches_eq eligible_def)
  assume "int (length cat) \<le> n"
  with length_collect_matches [of lower p cat]
  have "int (length (sort_key (\<lambda>m. - score m) (collect_matches lower p cat))) \<le> n" by simp
  then have "match_schemes lower cat p n = sort_key (\<lambda>m. - score m) (collect_matches lower p cat)"
    unfolding match_schemes_def by (rule slice_to_all)
  with c show "\<lparr>scheme = s, score = relevance_score lower p s\<rparr>
      \<in> set (match_schemes lower cat p n)"
    by simp
qed

theorem empty_rules_universal_witness:
  "\<not> rule_present AgeMin (no_rules\<lparr>r_other_keys := [''notes'']\<rparr>) \<and>
   passes_filter lower_ascii scenario_A_profile (no_rules\<lparr>r_other_keys := [''notes'']\<rparr>) \<and>
   universal_scheme \<in> set demo_catalog \<and> eligibility universal_scheme = None \<and>
   \<lparr>scheme = universal_scheme,
     score = relevance_score lower_ascii scenario_A_profile universal_scheme\<rparr>
      \<in> set (collect_matches lower_ascii scenario_A_profile demo_catalog) \<and>
   int (length demo_catalog) \<le> 7 \<and>
   \<lparr>scheme = universal_scheme,
     score = relevance_score lower_ascii scenario_A_profile universal_scheme\<rparr>
      \<in> set (match_schemes lower_ascii demo_catalog scenario_A_profile 7)"
proof -
  have k: "\<forall>k \<in> set all_rule_keys. \<not> rule_present k (no_rules\<lparr>r_other_keys := [''notes'']\<rparr>)"
    by (simp add: all_rule_keys_def no_rules_def)
  have u: "universal_scheme \<in> set demo_catalog \<and> eligibility universal_scheme = None"
    by (simp add: demo_catalog_def universal_scheme_def)
  have l: "int (length demo_catalog) \<le> 7"
    by (simp add: demo_catalog_def)
  have a: "\<not> rule_present AgeMin (no_rules\<lparr>r_other_keys := [''notes'']\<rparr>)"
    by (simp add: no_rules_def)
  show ?thesis
    using k u l a
      empty_rules_universal [of "no_rules\<lparr>r_other_keys := [''notes'']\<rparr>" lower_ascii
          scenario_A_profile universal_scheme demo_catalog 7]
    by simp
qed

section \<open>The profile round trip\<close>

lemma init_entry_age:
  "age q = None \<Longrightarrow>
   init_fields (entry Kw_age v @ rest) q = init_fields rest (q\<lparr>age := v\<rparr>)"
  by (cases v; cases q) (simp_all add: entry_def)

lemma init_entry_gender:
  "gender q = None \<Longrightarrow>
   init_fields (entry Kw_gender v @ rest) q = init_fields rest (q\<lparr>gender := v\<rparr>)"
  by (cases v; cases q) (simp_all add: entry_def)

lemma init_entry_state:
  "state q = None \<Longrightarrow>
   init_fields (entry Kw_state v @ rest) q = init_fields rest (q\<lparr>state := v\<rparr>)"
  by (cases v; cases q) (simp_all add: entry_def)

lemma init_entry_district:
  "district q = None \<Longrightarrow>
   init_fields (entry Kw_district v @ rest) q = init_fields rest (q\<lparr>district := v\<rparr>)"
  by (cases v; cases q) (simp_all add: entry_def)

lemma init_entry_occupation:
  "occupation q = None \<Longrightarrow>
   init_fields (entry Kw_occupation v @ rest) q = init_fields rest (q\<lparr>occupation := v\<rparr>)"
  by (cases v; cases q) (simp_all add: entry_def)

lemma init_entry_category:
  "category q = None \<Longrightarrow>
   init_fields (entry Kw_category v @ rest) q = init_fields rest (q\<lparr>category := v\<rparr>)"
  by (cases v; cases q) (simp_all add: entry_def)

lemma init_entry_annual_income:
  "annual_income q = None \<Longrightarrow>
   init_fields (entry Kw_annual_income v @ rest) q = init_fields rest (q\<lparr>annual_income := v\<rparr>)"
  by (cases v; cases q) (simp_all add: entry_def)

lemma init_entry_bpl_status:
  "bpl_status q = None \<Longrightarrow>
   init_fields (entry Kw_bpl_status v @ rest) q = init_fields rest (q\<lparr>bpl_status := v\<rparr>)"
  by (cases v; cases q) (simp_all add: entry_def)

lemma init_entry_disability:
  "disability q = None \<Longrightarrow>
   init_fields (entry Kw_disability v @ rest) q = init_fields rest (q\<lparr>disability := v\<rparr>)"
  by (cases v; cases q) (simp_all add: entry_def)

lemma init_entry_marital_status:
  "marital_status q = None \<Longrightarrow>
   init_fields (entry Kw_marital_status v @ rest) q = init_fields rest (q\<lparr>marital_status := v\<rparr>)"
  by (cases v; cases q) (simp_all add: entry_def)

lemma init_entry_land_ownership:
  "land_ownership q = None \<Longrightarrow>
   init_fields (entry Kw_land_ownership v @ rest) q = init_fields rest (q\<lparr>land_ownership := v\<rparr>)"
  by (cases v; cases q) (simp_all add: entry_def)

lemma init_entry_education_level:
  "education_level q = None \<Longrightarrow>
   init_fields (entry Kw_education_level v @ rest) q = init_fields rest (q\<lparr>education_level := v\<rparr>)"
  by (cases v; cases q) (simp_all add: entry_def)

lemma init_entry_family_members:
  "family_members q = None \<Longrightarrow>
   init_fields (entry Kw_family_members v @ rest) q = init_fields rest (q\<lparr>family_members := v\<rparr>)"
  by (cases v; cases q) (simp_all add: entry_def)

lemma init_entry_children_count:
  "children_count q = None \<Longrightarrow>
   init_fields (entry Kw_children_count v @ rest) q = init_fields rest (q\<lparr>children_count := v\<rparr>)"
  by (cases v; cases q) (simp_all add: entry_def)

lemma init_entry_children_in_school:
  "children_in_school q = None \<Longrightarrow>
   init_fields (entry Kw_children_in_school v @ rest) q = init_fields rest (q\<lparr>children_in_school := v\<rparr>)"
  by (cases v; cases q) (simp_all add: entry_def)

lemma init_entry_pregnant_in_family:
  "pregnant_in_family q = None \<Longrightarrow>
   init_fields (entry Kw_pregnant_in_family v @ rest) q = init_fields rest (q\<lparr>pregnant_in_family := v\<rparr>)"
  by (cases v; cases q) (simp_all add: entry_def)

lemma init_entry_senior_in_family:
  "senior_in_family q = None \<Longrightarrow>
   init_fields (entry Kw_senior_in_family v @ rest) q = init_fields rest (q\<lparr>senior_in_family := v\<rparr>)"
  by (cases v; cases q) (simp_all add: entry_def)

lemmas init_entry =
  init_entry_age
  init_entry_gender
  init_entry_state
  init_entry_district
  init_entry_occupation
  init_entry_category
  init_entry_annual_income
  init_entry_bpl_status
  init_entry_disability
  init_entry_marital_status
  init_entry_land_ownership
  init_entry_education_level
  init_entry_family_members
  init_entry_children_count
  init_entry_children_in_school
  init_entry_pregnant_in_family
  init_entry_senior_in_family

lemma init_last_entry:
  "senior_in_family q = None \<Longrightarrow>
   init_fields (entry Kw_senior_in_family v) q = Inr (q\<lparr>senior_in_family := v\<rparr>)"
  using init_entry_senior_in_family [of q v "[]"] by simp

text \<open>
  Claim C10: building a \<^verbatim>\<open>CitizenProfile\<close> from the \<^verbatim>\<open>to_dict\<close> output of a profile
  (which omits the null fields) gives back the profile.
\<close>

theorem profile_dict_roundtrip: "CitizenProfile_init (to_dict p) = Inr p"
proof -
  have "CitizenProfile_init (to_dict p) =
    Inr (empty_profile\<lparr>age := age p, gender := gender p, state := state p,
      district := district p, occupation := occupation p, category := category p,
      annual_income := annual_income p, bpl_status := bpl_status p,
      disability := disability p, marital_status := marital_status p,
      land_ownership := land_ownership p, education_level := education_level p,
      family_members := family_members p, children_count := children_count p,
      children_in_school := children_in_school p,
      pregnant_in_family := pregnant_in_family p,
      senior_in_family := senior_in_family p\<rparr>)"
    unfolding CitizenProfile_init_def to_dict_def
    by (simp add: init_entry init_last_entry empty_profile_def)
  also have "\<dots> = Inr p"
    by (cases p) (simp add: empty_profile_def)
  finally show ?thesis .
qed

theorem profile_dict_roundtrip_witness:
  "to_dict scenario_A_profile =
     [Kw_age (Some 35), Kw_gender (Some ''female''), Kw_state (Some ''Bihar''),
      Kw_occupation (Some ''farmer''), Kw_category (Some ''general''),
      Kw_annual_income (Some 80000)] \<and>
   map kwarg_name (to_dict scenario_A_profile) =
     [''age'', ''gender'', ''state'', ''occupation'', ''category'', ''annual_income''] \<and>
   CitizenProfile_init
     [Kw_age (Some 35), Kw_gender (Some ''female''), Kw_state (Some ''Bihar''),
      Kw_occupation (Some ''farmer''), Kw_category (Some ''general''),
      Kw_annual_income (Some 80000)] = Inr scenario_A_profile"
proof -
  have d: "to_dict scenario_A_profile =
     [Kw_age (Some 35), Kw_gender (Some ''female''), Kw_state (Some ''Bihar''),
      Kw_occupation (Some ''farmer''), Kw_category (Some ''general''),
      Kw_annual_income (Some 80000)]"
    by (simp add: to_dict_def entry_def scenario_A_profile_def empty_profile_def)
  show ?thesis using d profile_dict_roundtrip [of scenario_A_profile] by simp
qed

section \<open>Properties of the discovery handler\<close>

lemma str_truthy_question:
  "str_truthy (get_profiling_question p) \<longleftrightarrow> get_profiling_question p \<noteq> None"
  by (simp add: get_profiling_question_def str_truthy_def)

lemma lookup_question_value:
  "get_profiling_question p = Some q \<Longrightarrow>
   lookup_question q lang =
     Inr (QuestionText q (if lang = ''hi'' \<or> lang = ''en'' then lang else ''en''))"
  by (auto simp: get_profiling_question_def lookup_question_def PROFILE_QUESTIONS_def
      split: if_splits)

lemma summarise_total:
  "\<forall>m \<in> set ms. name (scheme m) \<noteq> None \<and> benefit_amount (scheme m) \<noteq> None \<Longrightarrow>
   summarise ms = Inr (map summary_of ms)"
  by (induction ms) (auto simp: summary_of_def)

lemma scheme_lines_total:
  "\<forall>m \<in> set ms. name (scheme m) \<noteq> None \<and> benefit_amount (scheme m) \<noteq> None \<and>
      how_to_apply (scheme m) \<noteq> None \<Longrightarrow>
   scheme_lines i ms = Inr (map (\<lambda>(j, m). line_of j m) (enumerate i ms))"
  by (induction ms arbitrary: i) (auto simp: line_of_def)

lemma run_match_schemes_eq:
  "run_match_schemes lower file cache p n =
     (match_schemes lower (case cache of None \<Rightarrow> file | Some schemes \<Rightarrow> schemes) p n,
      Some (case cache of None \<Rightarrow> file | Some schemes \<Rightarrow> schemes))"
  by (cases cache) (simp_all add: run_match_schemes_def load_schemes_def)

lemma handler_question_branch:
  assumes "get_profiling_question (profile sess) \<noteq> None"
    and "completeness_score (profile sess) < 5 / 10"
  shows "handle_scheme_discovery lower generate file cache sess lang =
        (cache, sess,
         Inr ((if completeness_score (profile sess) = 0 then IntroQuestion else NextQuestion)
                (if lang = ''hi'' then ''hi'' else ''en'')
                (QuestionText (the (get_profiling_question (profile sess)))
                   (if lang = ''hi'' \<or> lang = ''en'' then lang else ''en''))))"
proof -
  from assms(1) obtain q where q: "get_profiling_question (profile sess) = Some q" by blast
  have c: "(str_truthy (get_profiling_question (profile sess)) \<and>
      completeness_score (profile sess) < 5 / 10) = True"
    using assms by (simp add: str_truthy_question)
  show ?thesis
    unfolding handle_scheme_discovery_def Let_def c if_True
    by (simp add: q lookup_question_value [OF q])
qed

lemma handler_match_branch:
  assumes "\<not> (get_profiling_question (profile sess) \<noteq> None \<and>
              completeness_score (profile sess) < 5 / 10)"
  shows "handle_scheme_discovery lower generate file cache sess lang =
     (Some (case cache of None \<Rightarrow> file | Some schemes \<Rightarrow> schemes),
      case summarise (match_schemes lower (case cache of None \<Rightarrow> file | Some schemes \<Rightarrow> schemes) (profile sess) 7) of
        Inl e \<Rightarrow> (sess, Inl e)
      | Inr summaries \<Rightarrow>
          (sess\<lparr>matched_schemes := summaries\<rparr>,
           explain_schemes generate (match_schemes lower (case cache of None \<Rightarrow> file | Some schemes \<Rightarrow> schemes) (profile sess) 7) (profile sess) lang))"
proof -
  from assms have n: "(str_truthy (get_profiling_question (profile sess)) \<and>
              completeness_score (profile sess) < 5 / 10) = False"
    by (simp add: str_truthy_question)
  show ?thesis
    unfolding handle_scheme_discovery_def Let_def n if_False run_match_schemes_eq
    by (cases "summarise (match_schemes lower (case cache of None \<Rightarrow> file | Some schemes \<Rightarrow> schemes) (profile sess) 7)") simp_all
qed

lemma not_question_after_match:
  "\<not> is_question (snd (case x of Inl e \<Rightarrow> (a, Inl e)
       | Inr summaries \<Rightarrow> (f summaries, explain_schemes generate ms p lang)))"
  by (cases x; cases "scheme_lines 1 (take 5 ms)")
     (auto simp: explain_schemes_def split: sum.splits)

lemma is_question_choice:
  "is_question (Inr ((if b then IntroQuestion else NextQuestion) l t))"
  by simp

text \<open>
  Claim C8: the handler returns a profiling question, without calling the matcher
  (the catalog state is as before the call) and leaving the session as it is,
  exactly when \<^verbatim>\<open>get_profiling_question\<close> yields a question and the completeness
  score is below 0.5; the question is the table's text for the pending field in the
  session language, or in English for a language the table does not have. Otherwise
  it calls \<^verbatim>\<open>match_schemes\<close> on the profile with the default limit 7, which loads
  the catalog; if a matched scheme has no name or benefit text the \<^verbatim>\<open>KeyError\<close>
  leaves the session unchanged, else the summaries of the matches are stored in the
  session and the result is that of \<^verbatim>\<open>explain_schemes\<close> on exactly these matches.
  On a catalog whose schemes all have a name, a benefit text and instructions, the
  session holds the name, benefit and score of every match, and the reply is the
  fixed sentence for no match or the model's text for the first five matches.
\<close>

theorem discovery_handler_dispatch:
  "(is_question (snd (snd (handle_scheme_discovery lower generate file cache sess lang))) \<longleftrightarrow> (get_profiling_question (profile sess) \<noteq> None \<and> completeness_score (profile sess) < 5 / 10)) \<and>
   ((get_profiling_question (profile sess) \<noteq> None \<and> completeness_score (profile sess) < 5 / 10) \<longrightarrow>
      handle_scheme_discovery lower generate file cache sess lang =
        (cache, sess,
         Inr ((if completeness_score (profile sess) = 0 then IntroQuestion else NextQuestion)
                (if lang = ''hi'' then ''hi'' else ''en'')
                (QuestionText (the (get_profiling_question (profile sess)))
                   (if lang = ''hi'' \<or> lang = ''en'' then lang else ''en''))))) \<and>
   (\<not> (get_profiling_question (profile sess) \<noteq> None \<and> completeness_score (profile sess) < 5 / 10) \<longrightarrow>
      fst (handle_scheme_discovery lower generate file cache sess lang) = Some (case cache of None \<Rightarrow> file | Some schemes \<Rightarrow> schemes) \<and>
      snd (handle_scheme_discovery lower generate file cache sess lang) =
        (case summarise (match_schemes lower (case cache of None \<Rightarrow> file | Some schemes \<Rightarrow> schemes) (profile sess) 7) of
           Inl e \<Rightarrow> (sess, Inl e)
         | Inr summaries \<Rightarrow>
             (sess\<lparr>matched_schemes := summaries\<rparr>,
              explain_schemes generate (match_schemes lower (case cache of None \<Rightarrow> file | Some schemes \<Rightarrow> schemes) (profile sess) 7) (profile sess) lang))) \<and>
   (\<not> (get_profiling_question (profile sess) \<noteq> None \<and> completeness_score (profile sess) < 5 / 10) \<and>
    (\<forall>s \<in> set (case cache of None \<Rightarrow> file | Some schemes \<Rightarrow> schemes). name s \<noteq> None \<and> benefit_amount s \<noteq> None \<and> how_to_apply s \<noteq> None) \<longrightarrow>
      snd (handle_scheme_discovery lower generate file cache sess lang) =
        (sess\<lparr>matched_schemes := map summary_of (match_schemes lower (case cache of None \<Rightarrow> file | Some schemes \<Rightarrow> schemes) (profile sess) 7)\<rparr>,
         if match_schemes lower (case cache of None \<Rightarrow> file | Some schemes \<Rightarrow> schemes) (profile sess) 7 = [] then Inr NoSchemesFound
         else (case generate (map (\<lambda>(i, m). line_of i m) (enumerate 1 (take 5 (match_schemes lower (case cache of None \<Rightarrow> file | Some schemes \<Rightarrow> schemes) (profile sess) 7))))
                      (to_dict (profile sess)) lang of
                 Inl e \<Rightarrow> Inl e
               | Inr text \<Rightarrow> Inr (ModelText text))))"
proof -
  let ?h = "handle_scheme_discovery lower generate file cache sess lang"
  let ?ask = "(get_profiling_question (profile sess) \<noteq> None \<and> completeness_score (profile sess) < 5 / 10)"
  let ?cat = "(case cache of None \<Rightarrow> file | Some schemes \<Rightarrow> schemes)"
  let ?ms = "match_schemes lower (case cache of None \<Rightarrow> file | Some schemes \<Rightarrow> schemes) (profile sess) 7"
  have iff: "is_question (snd (snd ?h)) \<longleftrightarrow> ?ask"
  proof (cases ?ask)
    case True
    then have "?h =
        (cache, sess,
         Inr ((if completeness_score (profile sess) = 0 then IntroQuestion else NextQuestion)
                (if lang = ''hi'' then ''hi'' else ''en'')
                (QuestionText (the (get_profiling_question (profile sess)))
                   (if lang = ''hi'' \<or> lang = ''en'' then lang else ''en''))))"
      by (intro handler_question_branch) simp_all
    with True show ?thesis by (simp add: is_question_choice)
  next
    case False
    then show ?thesis
      by (simp only: handler_match_branch [OF False] snd_conv not_question_after_match)
  qed
  have q: "((get_profiling_question (profile sess) \<noteq> None \<and> completeness_score (profile sess) < 5 / 10) \<longrightarrow>
      handle_scheme_discovery lower generate file cache sess lang =
        (cache, sess,
         Inr ((if completeness_score (profile sess) = 0 then IntroQuestion else NextQuestion)
                (if lang = ''hi'' then ''hi'' else ''en'')
                (QuestionText (the (get_profiling_question (profile sess)))
                   (if lang = ''hi'' \<or> lang = ''en'' then lang else ''en'')))))"
    using handler_question_branch by blast
  have m: "(\<not> (get_profiling_question (profile sess) \<noteq> None \<and> completeness_score (profile sess) < 5 / 10) \<longrightarrow>
      fst (handle_scheme_discovery lower generate file cache sess lang) = Some (case cache of None \<Rightarrow> file | Some schemes \<Rightarrow> schemes) \<and>
      snd (handle_scheme_discovery lower generate file cache sess lang) =
        (case summarise (match_schemes lower (case cache of None \<Rightarrow> file | Some schemes \<Rightarrow> schemes) (profile sess) 7) of
           Inl e \<Rightarrow> (sess, Inl e)
         | Inr summaries \<Rightarrow>
             (sess\<lparr>matched_schemes := summaries\<rparr>,
              explain_schemes generate (match_schemes lower (case cache of None \<Rightarrow> file | Some schemes \<Rightarrow> schemes) (profile sess) 7) (profile sess) lang)))"
  proof
    assume n: "\<not> ?ask"
    show "fst ?h = Some ?cat \<and>
      snd ?h =
        (case summarise ?ms of
           Inl e \<Rightarrow> (sess, Inl e)
         | Inr summaries \<Rightarrow>
             (sess\<lparr>matched_schemes := summaries\<rparr>,
              explain_schemes generate ?ms (profile sess) lang))"
      by (simp only: handler_match_branch [OF n] fst_conv snd_conv)
  qed
  have w: "(\<not> (get_profiling_question (profile sess) \<noteq> None \<and> completeness_score (profile sess) < 5 / 10) \<and>
    (\<forall>s \<in> set (case cache of None \<Rightarrow> file | Some schemes \<Rightarrow> schemes). name s \<noteq> None \<and> benefit_amount s \<noteq> None \<and> how_to_apply s \<noteq> None) \<longrightarrow>
      snd (handle_scheme_discovery lower generate file cache sess lang) =
        (sess\<lparr>matched_schemes := map summary_of (match_schemes lower (case cache of None \<Rightarrow> file | Some schemes \<Rightarrow> schemes) (profile sess) 7)\<rparr>,
         if match_schemes lower (case cache of None \<Rightarrow> file | Some schemes \<Rightarrow> schemes) (profile sess) 7 = [] then Inr NoSchemesFound
         else (case generate (map (\<lambda>(i, m). line_of i m) (enumerate 1 (take 5 (match_schemes lower (case cache of None \<Rightarrow> file | Some schemes \<Rightarrow> schemes) (profile sess) 7))))
                      (to_dict (profile sess)) lang of
                 Inl e \<Rightarrow> Inl e
               | Inr text \<Rightarrow> Inr (ModelText text))))"
  proof
    assume a: "\<not> ?ask \<and>
      (\<forall>s \<in> set ?cat. name s \<noteq> None \<and> benefit_amount s \<noteq> None \<and> how_to_apply s \<noteq> None)"
    then have n: "\<not> ?ask" by blast
    have wf: "\<forall>m \<in> set ?ms. name (scheme m) \<noteq> None \<and> benefit_amount (scheme m) \<noteq> None \<and>
        how_to_apply (scheme m) \<noteq> None"
    proof
      fix m assume "m \<in> set ?ms"
      then have "m \<in> set (collect_matches lower (profile sess) ?cat)"
        using set_match_schemes by blast
      then have "scheme m \<in> set ?cat" by (auto simp: collect_matches_eq)
      with a show "name (scheme m) \<noteq> None \<and> benefit_amount (scheme m) \<noteq> None \<and>
        how_to_apply (scheme m) \<noteq> None" by blast
    qed
    then have s: "summarise ?ms = Inr (map summary_of ?ms)"
      by (intro summarise_total) blast
    from wf have "\<forall>m \<in> set (take 5 ?ms). name (scheme m) \<noteq> None \<and>
        benefit_amount (scheme m) \<noteq> None \<and> how_to_apply (scheme m) \<noteq> None"
      by (meson in_set_takeD)
    then have l: "scheme_lines 1 (take 5 ?ms) =
        Inr (map (\<lambda>(i, m). line_of i m) (enumerate 1 (take 5 ?ms)))"
      by (rule scheme_lines_total)
    show "snd ?h =
        (sess\<lparr>matched_schemes := map summary_of ?ms\<rparr>,
         if ?ms = [] then Inr NoSchemesFound
         else (case generate (map (\<lambda>(i, m). line_of i m) (enumerate 1 (take 5 ?ms)))
                      (to_dict (profile sess)) lang of
                 Inl e \<Rightarrow> Inl e
               | Inr text \<Rightarrow> Inr (ModelText text)))"
      unfolding handler_match_branch [OF n] snd_conv s explain_schemes_def l
      by simp
  qed
  from iff q m w show ?thesis by blast
qed

lemma named_match:
  "match_schemes lower_ascii named_catalog scenario_A_profile 7 =
     [\<lparr>scheme = universal_scheme, score = 55\<rparr>, \<lparr>scheme = plain_scheme, score = 50\<rparr>,
      \<lparr>scheme = second_plain_scheme, score = 50\<rparr>]"
  by (simp add: match_schemes_def named_catalog_def demo_eligible demo_scores slice_to_def)

theorem discovery_handler_dispatch_witness:
  "handle_scheme_discovery lower_ascii fixed_model named_catalog None asking_session ''ta'' =
     (None, asking_session, Inr (NextQuestion ''en'' (QuestionText ''gender'' ''en''))) \<and>
   is_question (snd (snd
     (handle_scheme_discovery lower_ascii fixed_model named_catalog None asking_session ''ta''))) \<and>
   \<not> is_question (snd (snd
     (handle_scheme_discovery lower_ascii fixed_model named_catalog None matching_session ''hi''))) \<and>
   fst (handle_scheme_discovery lower_ascii fixed_model named_catalog None matching_session ''hi'')
     = Some named_catalog \<and>
   snd (handle_scheme_discovery lower_ascii fixed_model named_catalog None matching_session ''hi'')
     = (matching_session\<lparr>matched_schemes :=
          [\<lparr>summary_name = ''Universal cover'', summary_benefit = ''Rs 2 Lakh insurance'',
             summary_score = 55\<rparr>,
           \<lparr>summary_name = ''Plain'', summary_benefit = ''Rs 500 per month'',
             summary_score = 50\<rparr>,
           \<lparr>summary_name = ''Plain two'', summary_benefit = ''Rs 300 per month'',
             summary_score = 50\<rparr>]\<rparr>,
        Inr (ModelText ''These schemes are for you''))"
proof -
  have a: "get_profiling_question (profile asking_session) \<noteq> None \<and>
      completeness_score (profile asking_session) < 5 / 10"
    by (simp add: asking_session_def age_only_profile_def empty_profile_def
        get_profiling_question_def completeness_score_def critical_filled_def)
  have g: "the (get_profiling_question (profile asking_session)) = ''gender'' \<and>
      completeness_score (profile asking_session) \<noteq> 0"
    by (simp add: asking_session_def age_only_profile_def empty_profile_def
        get_profiling_question_def completeness_score_def critical_filled_def)
  have b: "\<not> (get_profiling_question (profile matching_session) \<noteq> None \<and>
      completeness_score (profile matching_session) < 5 / 10)"
    by (simp add: matching_session_def scenario_A_profile_def empty_profile_def
        get_profiling_question_def completeness_score_def critical_filled_def)
  have p: "profile matching_session = scenario_A_profile"
    by (simp add: matching_session_def)
  have w: "\<forall>s \<in> set named_catalog.
      name s \<noteq> None \<and> benefit_amount s \<noteq> None \<and> how_to_apply s \<noteq> None"
    by (simp add: named_catalog_def plain_scheme_def senior_scheme_def universal_scheme_def
        second_plain_scheme_def)
  have s: "map summary_of (match_schemes lower_ascii named_catalog scenario_A_profile 7) =
          [\<lparr>summary_name = ''Universal cover'', summary_benefit = ''Rs 2 Lakh insurance'',
             summary_score = 55\<rparr>,
           \<lparr>summary_name = ''Plain'', summary_benefit = ''Rs 500 per month'',
             summary_score = 50\<rparr>,
           \<lparr>summary_name = ''Plain two'', summary_benefit = ''Rs 300 per month'',
             summary_score = 50\<rparr>]"
    by (simp add: named_match summary_of_def universal_scheme_def plain_scheme_def
        second_plain_scheme_def)
  have e: "match_schemes lower_ascii named_catalog scenario_A_profile 7 \<noteq> []"
    by (simp add: named_match)
  from a g
    discovery_handler_dispatch [of lower_ascii fixed_model named_catalog None asking_session "''ta''"]
  have 1: "handle_scheme_discovery lower_ascii fixed_model named_catalog None asking_session ''ta'' =
     (None, asking_session, Inr (NextQuestion ''en'' (QuestionText ''gender'' ''en''))) \<and>
   is_question (snd (snd
     (handle_scheme_discovery lower_ascii fixed_model named_catalog None asking_session ''ta'')))"
    by simp
  note match_case = discovery_handler_dispatch
    [of lower_ascii fixed_model named_catalog None matching_session "''hi''",
     unfolded option.case p]
  have n: "\<not> is_question (snd (snd
     (handle_scheme_discovery lower_ascii fixed_model named_catalog None matching_session ''hi'')))"
    using match_case [THEN conjunct1] b [unfolded p] by blast
  have f: "fst (handle_scheme_discovery lower_ascii fixed_model named_catalog None
      matching_session ''hi'') = Some named_catalog"
    using match_case [THEN conjunct2, THEN conjunct2, THEN conjunct1] b [unfolded p] by blast
  have "snd (handle_scheme_discovery lower_ascii fixed_model named_catalog None
      matching_session ''hi'') =
        (matching_session\<lparr>matched_schemes :=
           map summary_of (match_schemes lower_ascii named_catalog scenario_A_profile 7)\<rparr>,
         if match_schemes lower_ascii named_catalog scenario_A_profile 7 = []
         then Inr NoSchemesFound
         else (case fixed_model
                  (map (\<lambda>(i, m). line_of i m)
                    (enumerate 1 (take 5
                      (match_schemes lower_ascii named_catalog scenario_A_profile 7))))
                  (to_dict scenario_A_profile) ''hi'' of
                 Inl e \<Rightarrow> Inl e
               | Inr text \<Rightarrow> Inr (ModelText text)))"
    using match_case [THEN conjunct2, THEN conjunct2, THEN conjunct2] b [unfolded p] w
    by blast
  with e have r: "snd (handle_scheme_discovery lower_ascii fixed_model named_catalog None
      matching_session ''hi'') =
        (matching_session\<lparr>matched_schemes :=
           map summary_of (match_schemes lower_ascii named_catalog scenario_A_profile 7)\<rparr>,
         Inr (ModelText ''These schemes are for you''))"
    by (simp add: fixed_model_def)
  from n f r have 2: "\<not> is_question (snd (snd
     (handle_scheme_discovery lower_ascii fixed_model named_catalog None matching_session ''hi''))) \<and>
   fst (handle_scheme_discovery lower_ascii fixed_model named_catalog None matching_session ''hi'')
     = Some named_catalog \<and>
   snd (handle_scheme_discovery lower_ascii fixed_model named_catalog None matching_session ''hi'')
     = (matching_session\<lparr>matched_schemes :=
          map summary_of (match_schemes lower_ascii named_catalog scenario_A_profile 7)\<rparr>,
        Inr (ModelText ''These schemes are for you''))"
    by blast
  from 1 2 [unfolded s] show ?thesis by blast
qed

end
